theory Spec2Isabelle
  imports Main
begin

section \<open>Values of the Terraform plugin framework\<close>

text \<open>
  A field of a resource model is a \<open>types.String\<close> or a \<open>types.List\<close>: null, unknown
  or known. \<open>IsNull\<close> holds of the null value only; \<open>ValueString\<close> is the empty string
  for a null or an unknown value; \<open>ValueStringPointer\<close> is nil for the null value and
  points to the value otherwise.

  Naming: field \<open>F\<close> of the Go struct \<open>FederatedGraphResourceModel\<close> is written \<open>fg_F\<close>,
  of \<open>MonographDataSourceModel\<close> \<open>mg_F\<close>, of the protobuf message
  \<open>platformv1.FederatedGraph\<close> \<open>pb_F\<close>; a Go pointer is an \<open>option\<close> (nil is \<open>None\<close>).
\<close>

datatype tf_string = StringNull | StringUnknown | StringValue string

fun IsNull :: "tf_string \<Rightarrow> bool" where
  "IsNull StringNull = True"
| "IsNull StringUnknown = False"
| "IsNull (StringValue s) = False"

fun ValueString :: "tf_string \<Rightarrow> string" where
  "ValueString StringNull = ''''"
| "ValueString StringUnknown = ''''"
| "ValueString (StringValue s) = s"

fun ValueStringPointer :: "tf_string \<Rightarrow> string option" where
  "ValueStringPointer StringNull = None"
| "ValueStringPointer StringUnknown = Some ''''"
| "ValueStringPointer (StringValue s) = Some s"

datatype tf_list = ListNull | ListUnknown | ListValue "tf_string list"

fun Elements :: "tf_list \<Rightarrow> tf_string list" where
  "Elements ListNull = []"
| "Elements ListUnknown = []"
| "Elements (ListValue xs) = xs"

record FederatedGraphResourceModel =
  fg_Id :: tf_string
  fg_Name :: tf_string
  fg_Namespace :: tf_string
  fg_Readme :: tf_string
  fg_RoutingURL :: tf_string
  fg_AdmissionWebhookUrl :: tf_string
  fg_AdmissionWebhookSecret :: tf_string
  fg_LabelMatchers :: tf_list

record MonographDataSourceModel =
  mg_Id :: tf_string
  mg_Name :: tf_string
  mg_Namespace :: tf_string
  mg_Readme :: tf_string
  mg_RoutingURL :: tf_string
  mg_AdmissionWebhookSecret :: tf_string
  mg_LabelMatchers :: tf_list
  mg_WebsocketSubprotocol :: tf_string
  mg_SubscriptionProtocol :: tf_string
  mg_AdmissionWebhookURL :: tf_string

section \<open>Messages of the remote API\<close>

datatype EnumStatusCode =
  OK | ERR | ERR_NOT_FOUND | ERR_SUBGRAPH_COMPOSITION_FAILED | ERR_OTHER nat

text \<open>
  \<open>platformv1.FederatedGraph\<close>, with the fields the sources write or read. The struct
  literals of \<open>Create\<close> and \<open>Update\<close> leave \<open>Id\<close> at its zero value.
\<close>

record FederatedGraph =
  pb_Id :: string
  pb_Name :: string
  pb_Namespace :: string
  pb_RoutingURL :: string
  pb_AdmissionWebhookUrl :: "string option"
  pb_LabelMatchers :: "string list"
  pb_Readme :: "string option"

text \<open>The generated getters take a pointer and give the zero value for nil.\<close>

fun GetId :: "FederatedGraph option \<Rightarrow> string" where
  "GetId None = ''''"
| "GetId (Some g) = pb_Id g"

fun GetName :: "FederatedGraph option \<Rightarrow> string" where
  "GetName None = ''''"
| "GetName (Some g) = pb_Name g"

fun GetNamespace :: "FederatedGraph option \<Rightarrow> string" where
  "GetNamespace None = ''''"
| "GetNamespace (Some g) = pb_Namespace g"

fun GetRoutingURL :: "FederatedGraph option \<Rightarrow> string" where
  "GetRoutingURL None = ''''"
| "GetRoutingURL (Some g) = pb_RoutingURL g"

fun GetReadme :: "FederatedGraph option \<Rightarrow> string" where
  "GetReadme None = ''''"
| "GetReadme (Some g) = (case pb_Readme g of None \<Rightarrow> '''' | Some s \<Rightarrow> s)"

fun GetAdmissionWebhookUrl :: "FederatedGraph option \<Rightarrow> string" where
  "GetAdmissionWebhookUrl None = ''''"
| "GetAdmissionWebhookUrl (Some g) =
     (case pb_AdmissionWebhookUrl g of None \<Rightarrow> '''' | Some s \<Rightarrow> s)"

record GetFederatedGraphByNameResponse =
  Graph :: "FederatedGraph option"

text \<open>A composition error of an update response; only their number is inspected.\<close>

type_synonym CompositionError = string

record UpdateFederatedGraphResponse =
  CompositionErrors :: "CompositionError list"

text \<open>The status envelope \<open>common.Response\<close> and the token messages of \<open>token.go\<close>.\<close>

record common_Response =
  Code :: EnumStatusCode
  Details :: "string option"

fun GetDetails :: "common_Response \<Rightarrow> string" where
  "GetDetails r = (case Details r of None \<Rightarrow> '''' | Some s \<Rightarrow> s)"

record CreateFederatedGraphTokenRequest =
  ctr_GraphName :: string
  ctr_Namespace :: string
  ctr_TokenName :: string

record CreateFederatedGraphTokenResponse =
  ctk_Response :: "common_Response option"
  Token :: string

record DeleteRouterTokenRequest =
  drt_TokenName :: string
  drt_Namespace :: string

record DeleteRouterTokenResponse =
  drt_Response :: "common_Response option"

text \<open>\<open>connect.Response\<close>: the envelope \<open>Msg\<close> is a pointer to the message.\<close>

record 'm connect_Response =
  Msg :: "'m option"

section \<open>Go errors and their text\<close>

text \<open>
  An \<open>error\<close> is an opaque error of a collaborator (\<open>ErrorString\<close>, its message) or
  the result of \<open>fmt.Errorf\<close> with its format and operands. \<open>Error\<close> is the message:
  each verb of the format (the sources use \<open>%s\<close> and \<open>%w\<close>) prints the next operand,
  and every format of the sources has as many verbs as operands. The text of a protobuf
  message is not fixed by the sources; it is the parameter \<open>r\<close>.
\<close>

datatype go_error = ErrorString string | Errorf string "go_arg list"
and go_arg = AString string | AError go_error | AMessage DeleteRouterTokenResponse

fun sprintf :: "string \<Rightarrow> string list \<Rightarrow> string" where
  "sprintf [] as = []"
| "sprintf [c] as = [c]"
| "sprintf (c # v # fs) as =
     (if c = CHR ''%''
      then (case as of a # as' \<Rightarrow> a @ sprintf fs as' | [] \<Rightarrow> c # sprintf (v # fs) [])
      else c # sprintf (v # fs) as)"

primrec Error :: "(DeleteRouterTokenResponse \<Rightarrow> string) \<Rightarrow> go_error \<Rightarrow> string"
  and arg_text :: "(DeleteRouterTokenResponse \<Rightarrow> string) \<Rightarrow> go_arg \<Rightarrow> string" where
  "Error r (ErrorString s) = s"
| "Error r (Errorf f as) = sprintf f (map (arg_text r) as)"
| "arg_text r (AString s) = s"
| "arg_text r (AError e) = Error r e"
| "arg_text r (AMessage m) = r m"

text \<open>\<open>strings.Contains\<close>: the second string occurs in the first.\<close>

fun Contains :: "string \<Rightarrow> string \<Rightarrow> bool" where
  "Contains [] sub = (sub = [])"
| "Contains (c # cs) sub = (take (length sub) (c # cs) = sub \<or> Contains cs sub)"

text \<open>A Go call returns, or panics (here: on a nil pointer dereference).\<close>

datatype 'a go = Return 'a | Panic

section \<open>The token operations (internal/api/token.go)\<close>

text \<open>
  The generated RPC stub \<open>p.Client\<close>: each call gives an error or a response (a
  connect client returns exactly one of the two), as a function of the context and the
  request.
\<close>

record 'ctx PlatformServiceClient =
  CreateFederatedGraphToken ::
    "'ctx \<Rightarrow> CreateFederatedGraphTokenRequest \<Rightarrow>
      go_error + CreateFederatedGraphTokenResponse connect_Response"
  DeleteRouterToken ::
    "'ctx \<Rightarrow> DeleteRouterTokenRequest \<Rightarrow> go_error + DeleteRouterTokenResponse connect_Response"

record 'ctx PlatformClient =
  Client :: "'ctx PlatformServiceClient"

definition CreateToken_request :: "string \<Rightarrow> string \<Rightarrow> string \<Rightarrow> CreateFederatedGraphTokenRequest" where
  "CreateToken_request name graphName namespace =
     \<lparr>ctr_GraphName = graphName, ctr_Namespace = namespace, ctr_TokenName = name\<rparr>"

text \<open>
  \<open>CreateToken\<close> returns the pair (token, error). \<open>response.Msg.GetResponse().Code\<close>
  reads a field of the pointer \<open>GetResponse()\<close> returns: it panics when that is nil.
\<close>

definition CreateToken ::
  "'ctx PlatformClient \<Rightarrow> 'ctx \<Rightarrow> string \<Rightarrow> string \<Rightarrow> string \<Rightarrow> (string \<times> go_error option) go" where
  "CreateToken p ctx name graphName namespace =
     (case CreateFederatedGraphToken (Client p) ctx (CreateToken_request name graphName namespace) of
        Inl err \<Rightarrow> Return ('''', Some err)
      | Inr response \<Rightarrow>
          (case Msg response of
             None \<Rightarrow>
               Return ('''', Some (Errorf ''failed to create token, the server response is nil'' []))
           | Some msg \<Rightarrow>
               (case ctk_Response msg of
                  None \<Rightarrow> Panic
                | Some env \<Rightarrow>
                    if Code env \<noteq> OK
                    then Return ('''', Some (Errorf ''failed to create token: %s''
                                              [AString (GetDetails env)]))
                    else Return (Token msg, None))))"

definition DeleteToken_request :: "string \<Rightarrow> string \<Rightarrow> string \<Rightarrow> DeleteRouterTokenRequest" where
  "DeleteToken_request tokenName graphName namespace =
     \<lparr>drt_TokenName = tokenName, drt_Namespace = namespace\<rparr>"

definition DeleteToken ::
  "'ctx PlatformClient \<Rightarrow> 'ctx \<Rightarrow> string \<Rightarrow> string \<Rightarrow> string \<Rightarrow> go_error option go" where
  "DeleteToken p ctx tokenName graphName namespace =
     (case DeleteRouterToken (Client p) ctx (DeleteToken_request tokenName graphName namespace) of
        Inl err \<Rightarrow> Return (Some (Errorf ''failed to delete token: %w'' [AError err]))
      | Inr response \<Rightarrow>
          (case Msg response of
             None \<Rightarrow>
               Return (Some (Errorf ''failed to delete token, the server response is nil'' []))
           | Some msg \<Rightarrow>
               (case drt_Response msg of
                  None \<Rightarrow> Panic
                | Some env \<Rightarrow>
                    if Code env \<noteq> OK
                    then Return (Some (Errorf ''failed to delete token: %s'' [AMessage msg]))
                    else Return None)))"

section \<open>Errors of the API client and diagnostics\<close>

text \<open>\<open>api.ApiError\<close>: the cause, the operation that produced it and the remote status.\<close>

record ApiError =
  Err :: go_error
  Reason :: string
  Status :: EnumStatusCode

text \<open>
  Modelled from the spec: \<open>api.IsSubgraphCompositionFailedError\<close> and
  \<open>api.IsNotFoundError\<close> (package internal/api, bodies not in the sources). The spec
  names two special sub-kinds of ApiError, CompositionFailed and NotFound, told apart by
  the remote status the error carries; every other error is a generic hard failure.
\<close>

definition IsSubgraphCompositionFailedError :: "ApiError \<Rightarrow> bool" where
  "IsSubgraphCompositionFailedError e = (Status e = ERR_SUBGRAPH_COMPOSITION_FAILED)"

definition IsNotFoundError :: "ApiError \<Rightarrow> bool" where
  "IsNotFoundError e = (Status e = ERR_NOT_FOUND)"

text \<open>
  A diagnostic has a severity, a summary and a detail. The summaries are constants of
  the packages (\<open>ErrInvalidResourceID\<close>, ...) whose texts are not in the sources, or a
  literal. A detail is a literal, the text \<open>apiError.Error()\<close> of an ApiError, or
  \<open>fmt.Sprintf\<close> of a format and its operands (kept unevaluated).
\<close>

datatype severity = SeverityError | SeverityWarning

datatype summary =
  ErrInvalidResourceID | ErrCreatingGraph | ErrCompositionError | ErrCompositionErrors
  | ErrReadingGraph | ErrUpdatingGraph | ErrDeletingGraph
  | ErrInvalidMonographName | ErrReadingMonograph | Literal string

datatype fmt_arg =
  FString string | FApiError ApiError | FCompositionErrors "CompositionError list"

datatype detail = Text string | ApiError_Error ApiError | Sprintf string "fmt_arg list"

record diagnostic =
  Severity :: severity
  Summary :: summary
  Detail :: detail

text \<open>
  The response of a lifecycle call: the diagnostics, and the state the host persists
  (\<open>None\<close>: no resource is tracked). The host passes it in and reads it back.
\<close>

record 'm Response =
  Diagnostics :: "diagnostic list"
  State :: "'m option"

definition HasError :: "diagnostic list \<Rightarrow> bool" where
  "HasError ds = list_ex (\<lambda>d. Severity d = SeverityError) ds"

text \<open>
  Modelled from the spec: \<open>utils.AddDiagnosticError\<close> and \<open>utils.AddDiagnosticWarning\<close>
  (package internal/utils, not in the sources). The diagnostics aggregator attaches a
  fatal error or a non-fatal warning to the response.
\<close>

definition AddDiagnosticError :: "'m Response \<Rightarrow> summary \<Rightarrow> detail \<Rightarrow> 'm Response" where
  "AddDiagnosticError resp s d =
     resp\<lparr>Diagnostics := Diagnostics resp @ [\<lparr>Severity = SeverityError, Summary = s, Detail = d\<rparr>]\<rparr>"

definition AddDiagnosticWarning :: "'m Response \<Rightarrow> summary \<Rightarrow> detail \<Rightarrow> 'm Response" where
  "AddDiagnosticWarning resp s d =
     resp\<lparr>Diagnostics := Diagnostics resp @ [\<lparr>Severity = SeverityWarning, Summary = s, Detail = d\<rparr>]\<rparr>"

section \<open>The label matcher codec\<close>

text \<open>
  Modelled from the spec: \<open>utils.ConvertAndValidateLabelMatchers\<close> (package
  internal/utils, not in the sources). The spec's codec: each entry must be
  \<open>key=value\<close> with a non-empty key, a non-empty value and a single \<open>=\<close>; the order is
  preserved; the empty list is valid; validation fails at the first malformed entry
  and names it in the error. The callers pass the response, and \<open>Update\<close> adds no
  diagnostic of its own on failure, so the failure is recorded there as an error; the
  wording of the error and of its diagnostic is not given by the spec.
\<close>

definition valid_label_matcher :: "string \<Rightarrow> bool" where
  "valid_label_matcher s =
     (count_list s (CHR ''='') = 1
      \<and> takeWhile (\<lambda>c. c \<noteq> CHR ''='') s \<noteq> []
      \<and> tl (dropWhile (\<lambda>c. c \<noteq> CHR ''='') s) \<noteq> [])"

fun validate :: "string list \<Rightarrow> string + string list" where
  "validate [] = Inr []"
| "validate (s # ss) =
     (if valid_label_matcher s
      then (case validate ss of Inl bad \<Rightarrow> Inl bad | Inr ts \<Rightarrow> Inr (s # ts))
      else Inl s)"

definition ConvertAndValidateLabelMatchers ::
  "tf_list \<Rightarrow> 'm Response \<Rightarrow> (go_error + string list) \<times> 'm Response" where
  "ConvertAndValidateLabelMatchers data resp =
     (case validate (map ValueString (Elements data)) of
        Inl bad \<Rightarrow>
          (Inl (Errorf ''invalid label matcher: %s'' [AString bad]),
           AddDiagnosticError resp (Literal ''Invalid label matcher'') (Text bad))
      | Inr ts \<Rightarrow> (Inr ts, resp))"

section \<open>The remote control plane as the resources see it\<close>

text \<open>
  The methods of \<open>*api.PlatformClient\<close> the resources call; their bodies are not in the
  sources, so each is a parameter, with the signature of its call site: a pair
  (response, error) of pointers, or an error alone. The remote system is a state \<open>'r\<close>
  that every call may read and change. \<open>world\<close> adds the log of the calls made (a ghost
  field: it records the remote calls an operation issues, in order).
\<close>

record 'r GraphClient =
  CreateFederatedGraph :: "string option \<Rightarrow> FederatedGraph \<Rightarrow> 'r \<Rightarrow> ApiError option \<times> 'r"
  GetFederatedGraph ::
    "string \<Rightarrow> string \<Rightarrow> 'r \<Rightarrow> (GetFederatedGraphByNameResponse option \<times> ApiError option) \<times> 'r"
  UpdateFederatedGraph ::
    "string option \<Rightarrow> FederatedGraph \<Rightarrow> 'r \<Rightarrow>
      (UpdateFederatedGraphResponse option \<times> ApiError option) \<times> 'r"
  DeleteFederatedGraph :: "string \<Rightarrow> string \<Rightarrow> 'r \<Rightarrow> ApiError option \<times> 'r"
  GetMonograph ::
    "string \<Rightarrow> string \<Rightarrow> 'r \<Rightarrow> (FederatedGraph option \<times> ApiError option) \<times> 'r"

datatype call =
  Call_CreateFederatedGraph "string option" FederatedGraph
  | Call_GetFederatedGraph string string
  | Call_UpdateFederatedGraph "string option" FederatedGraph
  | Call_DeleteFederatedGraph string string
  | Call_GetMonograph string string

record 'r world =
  remote :: 'r
  calls :: "call list"

definition client_CreateFederatedGraph ::
  "'r GraphClient \<Rightarrow> string option \<Rightarrow> FederatedGraph \<Rightarrow> 'r world \<Rightarrow> ApiError option \<times> 'r world" where
  "client_CreateFederatedGraph c secret graph w =
     (case CreateFederatedGraph c secret graph (remote w) of
        (res, r') \<Rightarrow>
          (res, \<lparr>remote = r', calls = calls w @ [Call_CreateFederatedGraph secret graph]\<rparr>))"

definition client_GetFederatedGraph ::
  "'r GraphClient \<Rightarrow> string \<Rightarrow> string \<Rightarrow> 'r world \<Rightarrow>
    (GetFederatedGraphByNameResponse option \<times> ApiError option) \<times> 'r world" where
  "client_GetFederatedGraph c name namespace w =
     (case GetFederatedGraph c name namespace (remote w) of
        (res, r') \<Rightarrow> (res, \<lparr>remote = r', calls = calls w @ [Call_GetFederatedGraph name namespace]\<rparr>))"

definition client_UpdateFederatedGraph ::
  "'r GraphClient \<Rightarrow> string option \<Rightarrow> FederatedGraph \<Rightarrow> 'r world \<Rightarrow>
    (UpdateFederatedGraphResponse option \<times> ApiError option) \<times> 'r world" where
  "client_UpdateFederatedGraph c secret graph w =
     (case UpdateFederatedGraph c secret graph (remote w) of
        (res, r') \<Rightarrow>
          (res, \<lparr>remote = r', calls = calls w @ [Call_UpdateFederatedGraph secret graph]\<rparr>))"

definition client_DeleteFederatedGraph ::
  "'r GraphClient \<Rightarrow> string \<Rightarrow> string \<Rightarrow> 'r world \<Rightarrow> ApiError option \<times> 'r world" where
  "client_DeleteFederatedGraph c name namespace w =
     (case DeleteFederatedGraph c name namespace (remote w) of
        (res, r') \<Rightarrow>
          (res, \<lparr>remote = r', calls = calls w @ [Call_DeleteFederatedGraph name namespace]\<rparr>))"

definition client_GetMonograph ::
  "'r GraphClient \<Rightarrow> string \<Rightarrow> string \<Rightarrow> 'r world \<Rightarrow>
    (FederatedGraph option \<times> ApiError option) \<times> 'r world" where
  "client_GetMonograph c name namespace w =
     (case GetMonograph c name namespace (remote w) of
        (res, r') \<Rightarrow> (res, \<lparr>remote = r', calls = calls w @ [Call_GetMonograph name namespace]\<rparr>))"

section \<open>The federated graph resource (resource_cosmo_federated_graph.go)\<close>

text \<open>
  Each handler takes the client, the request (the model the host hands over; decoding it
  with \<open>Plan.Get\<close> or \<open>State.Get\<close> succeeds without diagnostics), the response and the
  world, and gives back the response, or a panic, with the world after its remote calls.
  \<open>State.Set\<close> stores the model, \<open>State.RemoveResource\<close> clears it; logging has no effect.
\<close>

record CreateRequest =
  create_Plan :: FederatedGraphResourceModel

record ReadRequest =
  read_State :: FederatedGraphResourceModel

record UpdateRequest =
  update_Plan :: FederatedGraphResourceModel
  update_State :: FederatedGraphResourceModel

record DeleteRequest =
  delete_State :: FederatedGraphResourceModel

text \<open>
  The request message \<open>Create\<close> and \<open>Update\<close> build from the model and the validated
  label matchers, and the secret they pass beside it.
\<close>

definition apiGraph :: "FederatedGraphResourceModel \<Rightarrow> string list \<Rightarrow> FederatedGraph" where
  "apiGraph data labelMatchers =
     \<lparr>pb_Id = '''',
      pb_Name = ValueString (fg_Name data),
      pb_Namespace = ValueString (fg_Namespace data),
      pb_RoutingURL = ValueString (fg_RoutingURL data),
      pb_AdmissionWebhookUrl = ValueStringPointer (fg_AdmissionWebhookUrl data),
      pb_LabelMatchers = labelMatchers,
      pb_Readme = ValueStringPointer (fg_Readme data)\<rparr>"

definition admissionWebhookSecret :: "FederatedGraphResourceModel \<Rightarrow> string option" where
  "admissionWebhookSecret data =
     (if \<not> IsNull (fg_AdmissionWebhookSecret data)
      then ValueStringPointer (fg_AdmissionWebhookSecret data)
      else None)"

text \<open>
  \<open>createFederatedGraph\<close> returns the pair (response, error) with the response it wrote
  diagnostics to. After a successful read it evaluates \<open>response.Graph.GetId()\<close> for the
  debug log, which panics on a nil response.
\<close>

definition createFederatedGraph ::
  "'r GraphClient \<Rightarrow> FederatedGraphResourceModel \<Rightarrow> FederatedGraphResourceModel Response \<Rightarrow>
    'r world \<Rightarrow>
    (GetFederatedGraphByNameResponse option \<times> ApiError option) go
      \<times> FederatedGraphResourceModel Response \<times> 'r world" where
  "createFederatedGraph c data resp w =
     (case ConvertAndValidateLabelMatchers (fg_LabelMatchers data) resp of
        (Inl err, resp1) \<Rightarrow>
          (Return (None, Some \<lparr>Err = err, Reason = ''CreateFederatedGraph'', Status = ERR\<rparr>),
           resp1, w)
      | (Inr labelMatchers, resp1) \<Rightarrow>
          (case client_CreateFederatedGraph c (admissionWebhookSecret data)
                  (apiGraph data labelMatchers) w of
             (apiError, w1) \<Rightarrow>
               (let hard = (case apiError of
                              None \<Rightarrow> False
                            | Some e \<Rightarrow> \<not> IsSubgraphCompositionFailedError e);
                    resp2 = (case apiError of
                               None \<Rightarrow> resp1
                             | Some e \<Rightarrow>
                                 if IsSubgraphCompositionFailedError e
                                 then AddDiagnosticWarning resp1 ErrCompositionError (ApiError_Error e)
                                 else resp1)
                in if hard then (Return (None, apiError), resp2, w1)
                   else
                     (case client_GetFederatedGraph c
                             (pb_Name (apiGraph data labelMatchers))
                             (pb_Namespace (apiGraph data labelMatchers)) w1 of
                        ((response, apiError2), w2) \<Rightarrow>
                          (case apiError2 of
                             Some e2 \<Rightarrow> (Return (None, Some e2), resp2, w2)
                           | None \<Rightarrow>
                               (case response of
                                  None \<Rightarrow> (Panic, resp2, w2)
                                | Some r \<Rightarrow> (Return (Some r, None), resp2, w2)))))))"

definition Create ::
  "'r GraphClient \<Rightarrow> CreateRequest \<Rightarrow> FederatedGraphResourceModel Response \<Rightarrow> 'r world \<Rightarrow>
    FederatedGraphResourceModel Response go \<times> 'r world" where
  "Create c req resp w =
     (let data = create_Plan req in
      if HasError (Diagnostics resp) then (Return resp, w)
      else
        (case createFederatedGraph c data resp w of
           (Panic, resp1, w1) \<Rightarrow> (Panic, w1)
         | (Return (response, apiError), resp1, w1) \<Rightarrow>
             (let stop = (case apiError of
                            None \<Rightarrow> False
                          | Some e \<Rightarrow> \<not> IsSubgraphCompositionFailedError e);
                  resp2 = (case apiError of
                             None \<Rightarrow> resp1
                           | Some e \<Rightarrow>
                               if IsSubgraphCompositionFailedError e
                               then AddDiagnosticWarning
                                      (AddDiagnosticWarning resp1 ErrCompositionError (ApiError_Error e))
                                      ErrCompositionError (ApiError_Error e)
                               else AddDiagnosticError resp1 ErrCreatingGraph (ApiError_Error e))
              in if stop then (Return resp2, w1)
                 else
                   (case response of
                      None \<Rightarrow> (Panic, w1)
                    | Some r \<Rightarrow>
                        (let graph = Graph r
                         in (Return (resp2\<lparr>State := Some (data
                               \<lparr>fg_Id := StringValue (GetId graph),
                                fg_Name := StringValue (GetName graph),
                                fg_Namespace := StringValue (GetNamespace graph),
                                fg_RoutingURL := StringValue (GetRoutingURL graph)\<rparr>)\<rparr>),
                             w1))))))"

text \<open>
  \<open>Read\<close>: after a successful call, \<open>apiResponse.Graph\<close> panics on a nil response, and the
  loop over \<open>graph.LabelMatchers\<close> reads a field of the graph pointer, so it panics on a
  nil graph (the getters before it do not).
\<close>

definition Read ::
  "'r GraphClient \<Rightarrow> ReadRequest \<Rightarrow> FederatedGraphResourceModel Response \<Rightarrow> 'r world \<Rightarrow>
    FederatedGraphResourceModel Response go \<times> 'r world" where
  "Read c req resp w =
     (let data = read_State req in
      if HasError (Diagnostics resp) then (Return resp, w)
      else if IsNull (fg_Id data) \<or> ValueString (fg_Id data) = ''''
      then (Return (AddDiagnosticError resp ErrInvalidResourceID
                      (Text ''Cannot read federated graph without an ID.'')), w)
      else
        (case client_GetFederatedGraph c (ValueString (fg_Name data))
                (ValueString (fg_Namespace data)) w of
           ((apiResponse, err), w1) \<Rightarrow>
             (case err of
                Some e \<Rightarrow>
                  if IsNotFoundError e
                  then (Return ((AddDiagnosticWarning resp (Literal ''Graph not found'')
                                   (Sprintf ''Graph '%s' not found will be recreated''
                                      [FString (ValueString (fg_Name data))]))
                                \<lparr>State := None\<rparr>), w1)
                  else (Return (AddDiagnosticError resp ErrReadingGraph
                                  (Sprintf ''Could not fetch subgraph '%s': %s''
                                     [FString (ValueString (fg_Name data)), FApiError e])), w1)
              | None \<Rightarrow>
                  (case apiResponse of
                     None \<Rightarrow> (Panic, w1)
                   | Some r \<Rightarrow>
                       (case Graph r of
                          None \<Rightarrow> (Panic, w1)
                        | Some g \<Rightarrow>
                            (Return (resp\<lparr>State := Some (data
                               \<lparr>fg_Id := StringValue (GetId (Some g)),
                                fg_Name := StringValue (GetName (Some g)),
                                fg_Namespace := StringValue (GetNamespace (Some g)),
                                fg_RoutingURL := StringValue (GetRoutingURL (Some g)),
                                fg_LabelMatchers :=
                                  ListValue (map StringValue (pb_LabelMatchers g))\<rparr>)\<rparr>),
                             w1))))))"

text \<open>
  \<open>Update\<close> decodes the plan. \<open>len(apiResponse.CompositionErrors)\<close> reads a field of the
  response pointer, so it panics on a nil response.
\<close>

definition Update ::
  "'r GraphClient \<Rightarrow> UpdateRequest \<Rightarrow> FederatedGraphResourceModel Response \<Rightarrow> 'r world \<Rightarrow>
    FederatedGraphResourceModel Response go \<times> 'r world" where
  "Update c req resp w =
     (let data = update_Plan req in
      if HasError (Diagnostics resp) then (Return resp, w)
      else if IsNull (fg_Id data) \<or> ValueString (fg_Id data) = ''''
      then (Return (AddDiagnosticError resp ErrInvalidResourceID
                      (Sprintf ''Cannot update federated graph because the resource ID is missing. Graph name: %s, graph namespace: %s''
                         [FString (ValueString (fg_Name data)),
                          FString (ValueString (fg_Namespace data))])), w)
      else
        (case ConvertAndValidateLabelMatchers (fg_LabelMatchers data) resp of
           (Inl err, resp1) \<Rightarrow> (Return resp1, w)
         | (Inr labelMatchers, resp1) \<Rightarrow>
             (case client_UpdateFederatedGraph c (admissionWebhookSecret data)
                     (apiGraph data labelMatchers) w of
                ((apiResponse, apiError), w1) \<Rightarrow>
                  (let hard = (case apiError of
                                 None \<Rightarrow> False
                               | Some e \<Rightarrow> \<not> IsSubgraphCompositionFailedError e);
                       resp2 = (case apiError of
                                  None \<Rightarrow> resp1
                                | Some e \<Rightarrow>
                                    if IsSubgraphCompositionFailedError e
                                    then AddDiagnosticWarning resp1 ErrCompositionErrors (ApiError_Error e)
                                    else AddDiagnosticError resp1 ErrUpdatingGraph (ApiError_Error e))
                   in if hard then (Return resp2, w1)
                      else
                        (case apiResponse of
                           None \<Rightarrow> (Panic, w1)
                         | Some r \<Rightarrow>
                             if length (CompositionErrors r) > 0
                             then (Return (AddDiagnosticWarning resp2 ErrCompositionError
                                     (Sprintf ''Composition errors: %v, graph name: %s, graph namespace: %s''
                                        [FCompositionErrors (CompositionErrors r),
                                         FString (pb_Name (apiGraph data labelMatchers)),
                                         FString (pb_Namespace (apiGraph data labelMatchers))])), w1)
                             else (Return (resp2\<lparr>State := Some data\<rparr>), w1))))))"

definition Delete ::
  "'r GraphClient \<Rightarrow> DeleteRequest \<Rightarrow> FederatedGraphResourceModel Response \<Rightarrow> 'r world \<Rightarrow>
    FederatedGraphResourceModel Response go \<times> 'r world" where
  "Delete c req resp w =
     (let data = delete_State req in
      if HasError (Diagnostics resp) then (Return resp, w)
      else if IsNull (fg_Id data) \<or> ValueString (fg_Id data) = ''''
      then (Return (AddDiagnosticError resp ErrInvalidResourceID
                      (Sprintf ''Cannot delete the federated graph because the resource ID is missing. Graph name: %s, graph namespace: %s''
                         [FString (ValueString (fg_Name data)),
                          FString (ValueString (fg_Namespace data))])), w)
      else
        (case client_DeleteFederatedGraph c (ValueString (fg_Name data))
                (ValueString (fg_Namespace data)) w of
           (err, w1) \<Rightarrow>
             (case err of
                Some e \<Rightarrow>
                  (Return (AddDiagnosticError resp ErrDeletingGraph
                     (Sprintf ''Could not delete federated graph: %s, graph name: %s, graph namespace: %s''
                        [FApiError e, FString (ValueString (fg_Name data)),
                         FString (ValueString (fg_Namespace data))])), w1)
              | None \<Rightarrow> (Return resp, w1))))"

section \<open>The monograph data source (data_source_cosmo_monograph.go)\<close>

record MonographReadRequest =
  read_Config :: MonographDataSourceModel

definition Monograph_Read ::
  "'r GraphClient \<Rightarrow> MonographReadRequest \<Rightarrow> MonographDataSourceModel Response \<Rightarrow> 'r world \<Rightarrow>
    MonographDataSourceModel Response go \<times> 'r world" where
  "Monograph_Read c req resp w =
     (let data = read_Config req in
      if HasError (Diagnostics resp) then (Return resp, w)
      else if IsNull (mg_Name data) \<or> ValueString (mg_Name data) = ''''
      then (Return (AddDiagnosticError resp ErrInvalidMonographName
                      (Sprintf ''The 'name' attribute is required for monograph in namespace: %s''
                         [FString (ValueString (mg_Namespace data))])), w)
      else
        (let namespace = (if ValueString (mg_Namespace data) = '''' then ''default''
                          else ValueString (mg_Namespace data))
         in (case client_GetMonograph c (ValueString (mg_Name data)) namespace w of
               ((monograph, err), w1) \<Rightarrow>
                 (case err of
                    Some e \<Rightarrow>
                      (Return (AddDiagnosticError resp ErrReadingMonograph
                         (Sprintf ''Could not read monograph: %s, name: %s, namespace: %s''
                            [FApiError e, FString (ValueString (mg_Name data)),
                             FString namespace])), w1)
                  | None \<Rightarrow>
                      (Return (resp\<lparr>State := Some (data
                         \<lparr>mg_Id := StringValue (GetId monograph),
                          mg_Name := StringValue (GetName monograph),
                          mg_Namespace := StringValue (GetNamespace monograph),
                          mg_RoutingURL := StringValue (GetRoutingURL monograph),
                          mg_Readme := StringValue (GetReadme monograph),
                          mg_AdmissionWebhookURL :=
                            StringValue (GetAdmissionWebhookUrl monograph)\<rparr>)\<rparr>), w1)))))"

section \<open>Example remotes and models\<close>

text \<open>
  \<open>stub_client\<close> answers every call with a fixed result and has no state.
  \<open>echo_client\<close> is a remote that stores graphs by (name, namespace): create and update
  store the graph sent, read returns what is stored, or a not-found error.
\<close>

definition api_error :: "EnumStatusCode \<Rightarrow> ApiError" where
  "api_error st = \<lparr>Err = ErrorString ''remote'', Reason = ''rpc'', Status = st\<rparr>"

definition stub_client ::
  "ApiError option \<Rightarrow> (GetFederatedGraphByNameResponse option \<times> ApiError option) \<Rightarrow>
   (UpdateFederatedGraphResponse option \<times> ApiError option) \<Rightarrow> ApiError option \<Rightarrow>
   (FederatedGraph option \<times> ApiError option) \<Rightarrow> unit GraphClient" where
  "stub_client cr gr ur dr mr =
     \<lparr>CreateFederatedGraph = (\<lambda>secret graph r. (cr, r)),
      GetFederatedGraph = (\<lambda>name namespace r. (gr, r)),
      UpdateFederatedGraph = (\<lambda>secret graph r. (ur, r)),
      DeleteFederatedGraph = (\<lambda>name namespace r. (dr, r)),
      GetMonograph = (\<lambda>name namespace r. (mr, r))\<rparr>"

type_synonym store = "string \<times> string \<Rightarrow> FederatedGraph option"

definition echo_client :: "store GraphClient" where
  "echo_client =
     \<lparr>CreateFederatedGraph =
        (\<lambda>secret graph r. (None, r((pb_Name graph, pb_Namespace graph) := Some graph))),
      GetFederatedGraph =
        (\<lambda>name namespace r.
           (case r (name, namespace) of
              None \<Rightarrow> ((None, Some (api_error ERR_NOT_FOUND)), r)
            | Some g \<Rightarrow> ((Some \<lparr>Graph = Some g\<rparr>, None), r))),
      UpdateFederatedGraph =
        (\<lambda>secret graph r.
           ((Some \<lparr>CompositionErrors = []\<rparr>, None),
            r((pb_Name graph, pb_Namespace graph) := Some graph))),
      DeleteFederatedGraph =
        (\<lambda>name namespace r. (None, r((name, namespace) := None))),
      GetMonograph =
        (\<lambda>name namespace r.
           (case r (name, namespace) of
              None \<Rightarrow> ((None, Some (api_error ERR_NOT_FOUND)), r)
            | Some g \<Rightarrow> ((Some g, None), r)))\<rparr>"

definition orders_model :: FederatedGraphResourceModel where
  "orders_model =
     \<lparr>fg_Id = StringValue ''g-1'',
      fg_Name = StringValue ''orders'',
      fg_Namespace = StringValue ''default'',
      fg_Readme = StringValue ''readme'',
      fg_RoutingURL = StringValue ''http://svc/routing'',
      fg_AdmissionWebhookUrl = StringNull,
      fg_AdmissionWebhookSecret = StringValue ''s3cret'',
      fg_LabelMatchers = ListValue [StringValue ''team=payments'', StringValue ''env=prod'']\<rparr>"


definition orders_monograph :: MonographDataSourceModel where
  "orders_monograph =
     \<lparr>mg_Id = StringNull,
      mg_Name = StringValue ''orders'',
      mg_Namespace = StringNull,
      mg_Readme = StringNull,
      mg_RoutingURL = StringNull,
      mg_AdmissionWebhookSecret = StringNull,
      mg_LabelMatchers = ListNull,
      mg_WebsocketSubprotocol = StringNull,
      mg_SubscriptionProtocol = StringNull,
      mg_AdmissionWebhookURL = StringNull\<rparr>"

definition empty_response :: "'m Response" where
  "empty_response = \<lparr>Diagnostics = [], State = None\<rparr>"

definition tracked :: "'m \<Rightarrow> 'm Response" where
  "tracked m = \<lparr>Diagnostics = [], State = Some m\<rparr>"

definition start :: "unit world" where
  "start = \<lparr>remote = (), calls = []\<rparr>"

definition nil_envelope_client :: "unit PlatformClient" where
  "nil_envelope_client =
     \<lparr>Client = \<lparr>CreateFederatedGraphToken = (\<lambda>ctx request. Inr \<lparr>Msg = None\<rparr>),
                 DeleteRouterToken = (\<lambda>ctx request. Inr \<lparr>Msg = None\<rparr>)\<rparr>\<rparr>"

definition composition_failed :: ApiError where
  "composition_failed = api_error ERR_SUBGRAPH_COMPOSITION_FAILED"

definition new_orders_model :: FederatedGraphResourceModel where
  "new_orders_model = orders_model\<lparr>fg_Id := StringUnknown\<rparr>"




definition read_composition_failed_client :: "unit GraphClient" where
  "read_composition_failed_client =
     stub_client None (None, Some composition_failed) (None, None) None (None, None)"


section \<open>Properties of the token operations\<close>

lemma Contains_prefix: "Contains (sub @ post) sub"
proof (cases "sub @ post")
  case Nil
  then show ?thesis by simp
next
  case (Cons a list)
  have "take (length sub) (a # list) = sub"
    unfolding Cons [symmetric] by simp
  then have "Contains (a # list) sub"
    by (simp only: Contains.simps) simp
  then show ?thesis
    unfolding Cons .
qed

lemma Contains_append: "Contains (pre @ sub @ post) sub"
  by (induction pre) (simp_all add: Contains_prefix)

lemma Contains_create_text:
  "Contains ''failed to create token, the server response is nil'' ''server response is nil''"
  using Contains_append [of "''failed to create token, the ''" "''server response is nil''" "[]"]
  by simp

lemma Contains_delete_text:
  "Contains ''failed to delete token, the server response is nil'' ''server response is nil''"
  using Contains_append [of "''failed to delete token, the ''" "''server response is nil''" "[]"]
  by simp

lemma sprintf_create_text:
  "sprintf ''failed to create token, the server response is nil'' [] =
     ''failed to create token, the server response is nil''"
  by simp

lemma sprintf_delete_text:
  "sprintf ''failed to delete token, the server response is nil'' [] =
     ''failed to delete token, the server response is nil''"
  by simp

text \<open>
  C8. When the RPC of \<open>CreateToken\<close> or \<open>DeleteToken\<close> succeeds at the transport level but
  the response's message envelope \<open>Msg\<close> is nil, the operation returns an error whose
  message contains "server response is nil" (whatever the rendering of operands), and
  \<open>CreateToken\<close> returns the empty string as the token.
\<close>

theorem nil_envelope_is_hard_failure:
  "(CreateFederatedGraphToken (Client p) ctx (CreateToken_request name graphName namespace)
      = Inr \<lparr>Msg = None\<rparr> \<longrightarrow>
    (\<exists>e. CreateToken p ctx name graphName namespace = Return ('''', Some e)
         \<and> (\<forall>r. Contains (Error r e) ''server response is nil'')))
   \<and> (DeleteRouterToken (Client p) ctx (DeleteToken_request tokenName graphName namespace)
      = Inr \<lparr>Msg = None\<rparr> \<longrightarrow>
    (\<exists>e. DeleteToken p ctx tokenName graphName namespace = Return (Some e)
         \<and> (\<forall>r. Contains (Error r e) ''server response is nil'')))"
proof (intro conjI impI)
  assume rpc: "CreateFederatedGraphToken (Client p) ctx (CreateToken_request name graphName namespace)
      = Inr \<lparr>Msg = None\<rparr>"
  have "CreateToken p ctx name graphName namespace =
      Return ('''', Some (Errorf ''failed to create token, the server response is nil'' []))"
    by (simp add: CreateToken_def rpc)
  moreover have "\<forall>r. Contains (Error r (Errorf ''failed to create token, the server response is nil'' []))
      ''server response is nil''"
    using Contains_create_text by (simp only: Error.simps list.map sprintf_create_text) simp
  ultimately show "\<exists>e. CreateToken p ctx name graphName namespace = Return ('''', Some e)
         \<and> (\<forall>r. Contains (Error r e) ''server response is nil'')"
    by blast
next
  assume rpc: "DeleteRouterToken (Client p) ctx (DeleteToken_request tokenName graphName namespace)
      = Inr \<lparr>Msg = None\<rparr>"
  have "DeleteToken p ctx tokenName graphName namespace =
      Return (Some (Errorf ''failed to delete token, the server response is nil'' []))"
    by (simp add: DeleteToken_def rpc)
  moreover have "\<forall>r. Contains (Error r (Errorf ''failed to delete token, the server response is nil'' []))
      ''server response is nil''"
    using Contains_delete_text by (simp only: Error.simps list.map sprintf_delete_text) simp
  ultimately show "\<exists>e. DeleteToken p ctx tokenName graphName namespace = Return (Some e)
         \<and> (\<forall>r. Contains (Error r e) ''server response is nil'')"
    by blast
qed

theorem nil_envelope_is_hard_failure_witness:
  "(\<exists>e. CreateToken nil_envelope_client () ''ci'' ''orders'' ''default'' = Return ('''', Some e)
         \<and> (\<forall>r. Contains (Error r e) ''server response is nil''))
   \<and> (\<exists>e. DeleteToken nil_envelope_client () ''ci'' ''orders'' ''default'' = Return (Some e)
         \<and> (\<forall>r. Contains (Error r e) ''server response is nil''))"
  using nil_envelope_is_hard_failure [of nil_envelope_client "()" "''ci''" "''orders''" "''default''" "''ci''"]
  by (simp add: nil_envelope_client_def)

text \<open>
  C10. \<open>DeleteToken\<close> does not depend on its \<open>graphName\<close> argument: the request it builds
  holds the token name and the namespace only, and two calls that differ in \<open>graphName\<close>
  alone build the same request and give the same result.
\<close>

theorem DeleteToken_ignores_graphName:
  "DeleteToken_request tokenName graphName namespace =
     \<lparr>drt_TokenName = tokenName, drt_Namespace = namespace\<rparr>
   \<and> DeleteToken_request tokenName graphName namespace =
       DeleteToken_request tokenName graphName' namespace
   \<and> DeleteToken p ctx tokenName graphName namespace =
       DeleteToken p ctx tokenName graphName' namespace"
  by (simp add: DeleteToken_def DeleteToken_request_def)

theorem DeleteToken_ignores_graphName_witness:
  "DeleteToken nil_envelope_client () ''ci'' ''orders'' ''default'' =
     DeleteToken nil_envelope_client () ''ci'' ''billing'' ''default''"
  using DeleteToken_ignores_graphName [of "''ci''" "''orders''" "''default''" "''billing''" nil_envelope_client "()"]
  by simp

section \<open>Properties of the federated graph resource\<close>

lemma HasError_simps:
  "HasError [] = False"
  "HasError (d # ds) = (Severity d = SeverityError \<or> HasError ds)"
  "HasError (xs @ ys) = (HasError xs \<or> HasError ys)"
  by (simp_all add: HasError_def)

lemma AddDiagnosticError_fields:
  "State (AddDiagnosticError resp s d) = State resp"
  "Diagnostics (AddDiagnosticError resp s d) =
     Diagnostics resp @ [\<lparr>Severity = SeverityError, Summary = s, Detail = d\<rparr>]"
  by (simp_all add: AddDiagnosticError_def)

lemma AddDiagnosticWarning_fields:
  "State (AddDiagnosticWarning resp s d) = State resp"
  "Diagnostics (AddDiagnosticWarning resp s d) =
     Diagnostics resp @ [\<lparr>Severity = SeverityWarning, Summary = s, Detail = d\<rparr>]"
  by (simp_all add: AddDiagnosticWarning_def)

lemma validate_valid: "list_all valid_label_matcher ts \<Longrightarrow> validate ts = Inr ts"
  by (induction ts) simp_all

lemma validate_StringValue:
  "list_all valid_label_matcher ts \<Longrightarrow>
   validate (map ValueString (Elements (ListValue (map StringValue ts)))) = Inr ts"
  by (simp add: comp_def validate_valid)

lemma ConvertAndValidate_Inr:
  "validate (map ValueString (Elements l)) = Inr ts \<Longrightarrow>
   ConvertAndValidateLabelMatchers l resp = (Inr ts, resp)"
  by (simp add: ConvertAndValidateLabelMatchers_def)

lemma valid_orders_matchers:
  "list_all valid_label_matcher [''team=payments'', ''env=prod'']"
  by (simp add: valid_label_matcher_def)

lemma validate_orders_model:
  "validate (map ValueString (Elements (fg_LabelMatchers orders_model))) =
     Inr [''team=payments'', ''env=prod'']"
  using validate_StringValue [OF valid_orders_matchers] by (simp add: orders_model_def)

text \<open>The paths of \<open>Read\<close>, \<open>Update\<close> and \<open>Delete\<close> after the identifier check.\<close>

lemma Read_not_found:
  assumes "\<not> HasError (Diagnostics resp)"
    and "\<not> (IsNull (fg_Id st) \<or> ValueString (fg_Id st) = '''')"
    and "GetFederatedGraph c (ValueString (fg_Name st)) (ValueString (fg_Namespace st)) (remote w)
           = ((ro, Some e), r')"
    and "IsNotFoundError e"
  shows "Read c \<lparr>read_State = st\<rparr> resp w =
           (Return ((AddDiagnosticWarning resp (Literal ''Graph not found'')
                       (Sprintf ''Graph '%s' not found will be recreated''
                          [FString (ValueString (fg_Name st))]))\<lparr>State := None\<rparr>),
            \<lparr>remote = r', calls = calls w @
               [Call_GetFederatedGraph (ValueString (fg_Name st)) (ValueString (fg_Namespace st))]\<rparr>)"
  using assms by (simp add: Read_def client_GetFederatedGraph_def Let_def)


lemma Update_after_call:
  assumes "\<not> HasError (Diagnostics resp)"
    and "\<not> (IsNull (fg_Id plan) \<or> ValueString (fg_Id plan) = '''')"
    and "validate (map ValueString (Elements (fg_LabelMatchers plan))) = Inr toks"
    and "UpdateFederatedGraph c (admissionWebhookSecret plan) (apiGraph plan toks) (remote w)
           = ((ro, eo), r')"
  shows "Update c \<lparr>update_Plan = plan, update_State = st\<rparr> resp w =
     (let w1 = \<lparr>remote = r', calls = calls w @
                  [Call_UpdateFederatedGraph (admissionWebhookSecret plan) (apiGraph plan toks)]\<rparr>;
          resp2 = (case eo of
                     None \<Rightarrow> resp
                   | Some e \<Rightarrow>
                       if IsSubgraphCompositionFailedError e
                       then AddDiagnosticWarning resp ErrCompositionErrors (ApiError_Error e)
                       else AddDiagnosticError resp ErrUpdatingGraph (ApiError_Error e))
      in if (case eo of None \<Rightarrow> False | Some e \<Rightarrow> \<not> IsSubgraphCompositionFailedError e)
         then (Return resp2, w1)
         else (case ro of
                 None \<Rightarrow> (Panic, w1)
               | Some r \<Rightarrow>
                   if length (CompositionErrors r) > 0
                   then (Return (AddDiagnosticWarning resp2 ErrCompositionError
                           (Sprintf ''Composition errors: %v, graph name: %s, graph namespace: %s''
                              [FCompositionErrors (CompositionErrors r),
                               FString (pb_Name (apiGraph plan toks)),
                               FString (pb_Namespace (apiGraph plan toks))])), w1)
                   else (Return (resp2\<lparr>State := Some plan\<rparr>), w1)))"
  using assms
  by (simp add: Update_def client_UpdateFederatedGraph_def Let_def ConvertAndValidate_Inr)

lemma Delete_after_call:
  assumes "\<not> HasError (Diagnostics resp)"
    and "\<not> (IsNull (fg_Id st) \<or> ValueString (fg_Id st) = '''')"
    and "DeleteFederatedGraph c (ValueString (fg_Name st)) (ValueString (fg_Namespace st)) (remote w)
           = (eo, r')"
  shows "Delete c \<lparr>delete_State = st\<rparr> resp w =
     (case eo of
        Some e \<Rightarrow>
          Return (AddDiagnosticError resp ErrDeletingGraph
            (Sprintf ''Could not delete federated graph: %s, graph name: %s, graph namespace: %s''
               [FApiError e, FString (ValueString (fg_Name st)),
                FString (ValueString (fg_Namespace st))]))
      | None \<Rightarrow> Return resp,
      \<lparr>remote = r', calls = calls w @
         [Call_DeleteFederatedGraph (ValueString (fg_Name st)) (ValueString (fg_Namespace st))]\<rparr>)"
  using assms
  by (simp add: Delete_def client_DeleteFederatedGraph_def Let_def split: option.splits)

lemma Monograph_Read_failure:
  assumes "\<not> HasError (Diagnostics resp)"
    and "\<not> (IsNull (mg_Name cfg) \<or> ValueString (mg_Name cfg) = '''')"
    and "ns = (if ValueString (mg_Namespace cfg) = '''' then ''default''
               else ValueString (mg_Namespace cfg))"
    and "GetMonograph c (ValueString (mg_Name cfg)) ns (remote w) = ((mo, Some e), r')"
  shows "Monograph_Read c \<lparr>read_Config = cfg\<rparr> resp w =
           (Return (AddDiagnosticError resp ErrReadingMonograph
                      (Sprintf ''Could not read monograph: %s, name: %s, namespace: %s''
                         [FApiError e, FString (ValueString (mg_Name cfg)), FString ns])),
            \<lparr>remote = r', calls = calls w @ [Call_GetMonograph (ValueString (mg_Name cfg)) ns]\<rparr>)"
  using assms by (simp add: Monograph_Read_def client_GetMonograph_def Let_def)

text \<open>
  \<open>createFederatedGraph\<close> once validation has passed and both remote calls are known:
  a hard failure of the create call returns before the read; otherwise the read is
  issued by (name, namespace), and its error, whatever its kind, is returned with a
  nil response.
\<close>

lemma createFederatedGraph_after_calls:
  assumes "validate (map ValueString (Elements (fg_LabelMatchers data))) = Inr toks"
    and "CreateFederatedGraph c (admissionWebhookSecret data) (apiGraph data toks) (remote w)
           = (co, r1)"
    and "GetFederatedGraph c (ValueString (fg_Name data)) (ValueString (fg_Namespace data)) r1
           = ((ro, eo), r2)"
  shows "createFederatedGraph c data resp w =
     (let w1 = \<lparr>remote = r1, calls = calls w @
                  [Call_CreateFederatedGraph (admissionWebhookSecret data) (apiGraph data toks)]\<rparr>;
          w2 = \<lparr>remote = r2, calls = calls w @
                  [Call_CreateFederatedGraph (admissionWebhookSecret data) (apiGraph data toks),
                   Call_GetFederatedGraph (ValueString (fg_Name data))
                     (ValueString (fg_Namespace data))]\<rparr>;
          resp2 = (case co of
                     None \<Rightarrow> resp
                   | Some e \<Rightarrow>
                       if IsSubgraphCompositionFailedError e
                       then AddDiagnosticWarning resp ErrCompositionError (ApiError_Error e)
                       else resp)
      in if (case co of None \<Rightarrow> False | Some e \<Rightarrow> \<not> IsSubgraphCompositionFailedError e)
         then (Return (None, co), resp2, w1)
         else (case eo of
                 Some e2 \<Rightarrow> (Return (None, Some e2), resp2, w2)
               | None \<Rightarrow>
                   (case ro of
                      None \<Rightarrow> (Panic, resp2, w2)
                    | Some r \<Rightarrow> (Return (Some r, None), resp2, w2))))"
  using assms
  by (simp add: createFederatedGraph_def client_CreateFederatedGraph_def
      client_GetFederatedGraph_def Let_def ConvertAndValidate_Inr apiGraph_def
      split: option.splits)



text \<open>
  C3 (as amended). A \<open>Read\<close> of the federated graph resource whose remote read returns a
  not-found error removes the resource from the tracked state and adds exactly one
  diagnostic, a warning; no error diagnostic is added. (The remote read is reached only
  with an identifier.) The \<open>Read\<close> of the monograph data source has no not-found path:
  every error of its remote read, not-found included, adds one error diagnostic and
  leaves the state as it was.
\<close>

theorem not_found_on_read:
  assumes "\<not> HasError (Diagnostics resp)" and "\<not> HasError (Diagnostics mresp)"
  shows "(\<not> (IsNull (fg_Id st) \<or> ValueString (fg_Id st) = '''')
          \<and> GetFederatedGraph c (ValueString (fg_Name st)) (ValueString (fg_Namespace st)) (remote w)
              = ((ro, Some e), r')
          \<and> IsNotFoundError e \<longrightarrow>
          (\<exists>resp' d. Read c \<lparr>read_State = st\<rparr> resp w =
               (Return resp', \<lparr>remote = r', calls = calls w @
                  [Call_GetFederatedGraph (ValueString (fg_Name st))
                     (ValueString (fg_Namespace st))]\<rparr>)
             \<and> State resp' = None
             \<and> Diagnostics resp' = Diagnostics resp @
                  [\<lparr>Severity = SeverityWarning, Summary = Literal ''Graph not found'', Detail = d\<rparr>]
             \<and> \<not> HasError (Diagnostics resp')))
       \<and> (\<not> (IsNull (mg_Name cfg) \<or> ValueString (mg_Name cfg) = '''')
          \<and> GetMonograph c (ValueString (mg_Name cfg))
                (if ValueString (mg_Namespace cfg) = '''' then ''default''
                 else ValueString (mg_Namespace cfg)) (remote mw)
              = ((mo, Some me), mr') \<longrightarrow>
          (\<exists>resp' d. fst (Monograph_Read c \<lparr>read_Config = cfg\<rparr> mresp mw) = Return resp'
             \<and> State resp' = State mresp
             \<and> Diagnostics resp' = Diagnostics mresp @
                  [\<lparr>Severity = SeverityError, Summary = ErrReadingMonograph, Detail = d\<rparr>]))"
proof (intro conjI impI)
  assume h: "\<not> (IsNull (fg_Id st) \<or> ValueString (fg_Id st) = '''')
          \<and> GetFederatedGraph c (ValueString (fg_Name st)) (ValueString (fg_Namespace st)) (remote w)
              = ((ro, Some e), r')
          \<and> IsNotFoundError e"
  let ?resp' = "(AddDiagnosticWarning resp (Literal ''Graph not found'')
                       (Sprintf ''Graph '%s' not found will be recreated''
                          [FString (ValueString (fg_Name st))]))\<lparr>State := None\<rparr>"
  have "Read c \<lparr>read_State = st\<rparr> resp w =
          (Return ?resp', \<lparr>remote = r', calls = calls w @
             [Call_GetFederatedGraph (ValueString (fg_Name st)) (ValueString (fg_Namespace st))]\<rparr>)"
    using Read_not_found [OF assms(1), of st c w ro e r'] h by simp
  moreover have "State ?resp' = None" by simp
  moreover have "Diagnostics ?resp' = Diagnostics resp @
      [\<lparr>Severity = SeverityWarning, Summary = Literal ''Graph not found'',
        Detail = Sprintf ''Graph '%s' not found will be recreated''
                   [FString (ValueString (fg_Name st))]\<rparr>]"
    by (simp add: AddDiagnosticWarning_def)
  moreover have "\<not> HasError (Diagnostics ?resp')"
    using assms(1) by (simp add: AddDiagnosticWarning_def HasError_simps)
  ultimately show "\<exists>resp' d. Read c \<lparr>read_State = st\<rparr> resp w =
               (Return resp', \<lparr>remote = r', calls = calls w @
                  [Call_GetFederatedGraph (ValueString (fg_Name st))
                     (ValueString (fg_Namespace st))]\<rparr>)
             \<and> State resp' = None
             \<and> Diagnostics resp' = Diagnostics resp @
                  [\<lparr>Severity = SeverityWarning, Summary = Literal ''Graph not found'', Detail = d\<rparr>]
             \<and> \<not> HasError (Diagnostics resp')"
    by blast
next
  assume h: "\<not> (IsNull (mg_Name cfg) \<or> ValueString (mg_Name cfg) = '''')
          \<and> GetMonograph c (ValueString (mg_Name cfg))
                (if ValueString (mg_Namespace cfg) = '''' then ''default''
                 else ValueString (mg_Namespace cfg)) (remote mw)
              = ((mo, Some me), mr')"
  from h have h1: "\<not> (IsNull (mg_Name cfg) \<or> ValueString (mg_Name cfg) = '''')"
    by (rule conjunct1)
  from h have h2: "GetMonograph c (ValueString (mg_Name cfg))
                (if ValueString (mg_Namespace cfg) = '''' then ''default''
                 else ValueString (mg_Namespace cfg)) (remote mw)
              = ((mo, Some me), mr')"
    by (rule conjunct2)
  have "fst (Monograph_Read c \<lparr>read_Config = cfg\<rparr> mresp mw) =
      Return (AddDiagnosticError mresp ErrReadingMonograph
                (Sprintf ''Could not read monograph: %s, name: %s, namespace: %s''
                   [FApiError me, FString (ValueString (mg_Name cfg)),
                    FString (if ValueString (mg_Namespace cfg) = '''' then ''default''
                             else ValueString (mg_Namespace cfg))]))"
    by (simp only: Monograph_Read_failure [OF assms(2) h1 refl h2] fst_conv)
  then show "\<exists>resp' d. fst (Monograph_Read c \<lparr>read_Config = cfg\<rparr> mresp mw) = Return resp'
             \<and> State resp' = State mresp
             \<and> Diagnostics resp' = Diagnostics mresp @
                  [\<lparr>Severity = SeverityError, Summary = ErrReadingMonograph, Detail = d\<rparr>]"
    by (simp add: AddDiagnosticError_fields)
qed

theorem not_found_on_read_witness:
  "(\<exists>resp' d. Read echo_client \<lparr>read_State = orders_model\<rparr> (tracked orders_model)
                 \<lparr>remote = Map.empty, calls = []\<rparr> =
               (Return resp', \<lparr>remote = Map.empty,
                               calls = [Call_GetFederatedGraph ''orders'' ''default'']\<rparr>)
             \<and> State resp' = None
             \<and> Diagnostics resp' =
                  [\<lparr>Severity = SeverityWarning, Summary = Literal ''Graph not found'', Detail = d\<rparr>]
             \<and> \<not> HasError (Diagnostics resp'))
   \<and> (\<exists>resp' d. fst (Monograph_Read echo_client \<lparr>read_Config = orders_monograph\<rparr>
                       empty_response \<lparr>remote = Map.empty, calls = []\<rparr>) = Return resp'
             \<and> State resp' = None
             \<and> Diagnostics resp' =
                  [\<lparr>Severity = SeverityError, Summary = ErrReadingMonograph, Detail = d\<rparr>])"
  using not_found_on_read
    [of "tracked orders_model" "empty_response :: MonographDataSourceModel Response"
        orders_model echo_client "\<lparr>remote = Map.empty, calls = []\<rparr>"
        None "api_error ERR_NOT_FOUND" Map.empty
        orders_monograph "\<lparr>remote = Map.empty, calls = []\<rparr>"
        None "api_error ERR_NOT_FOUND" Map.empty]
  by (simp add: tracked_def empty_response_def HasError_def orders_model_def
      orders_monograph_def echo_client_def api_error_def IsNotFoundError_def)

text \<open>
  The claim C3 as first stated fails for the \<open>Read\<close> of the monograph data source:
  a not-found error of its remote read gives an error diagnostic, not a warning.
\<close>

theorem monograph_not_found_is_error:
  "IsNotFoundError (api_error ERR_NOT_FOUND)
   \<and> Monograph_Read (stub_client None (None, None) (None, None) None
                       (None, Some (api_error ERR_NOT_FOUND)))
        \<lparr>read_Config = orders_monograph\<rparr> empty_response start =
      (Return \<lparr>Diagnostics =
                 [\<lparr>Severity = SeverityError, Summary = ErrReadingMonograph,
                   Detail = Sprintf ''Could not read monograph: %s, name: %s, namespace: %s''
                              [FApiError (api_error ERR_NOT_FOUND), FString ''orders'',
                               FString ''default'']\<rparr>],
               State = None\<rparr>,
       \<lparr>remote = (), calls = [Call_GetMonograph ''orders'' ''default'']\<rparr>)"
  by (simp add: Monograph_Read_def client_GetMonograph_def stub_client_def orders_monograph_def
      empty_response_def start_def api_error_def IsNotFoundError_def HasError_def
      AddDiagnosticError_def Let_def)

text \<open>
  C5. An \<open>Update\<close> whose remote call returns an error that is not a composition failure,
  and a \<open>Delete\<close> whose remote call returns any error at all, abort with one error
  diagnostic and leave the tracked state of the response exactly as it was. \<open>Delete\<close>
  has no soft path: the kind of the error is not inspected.
\<close>

theorem hard_failure_keeps_state:
  assumes "\<not> HasError (Diagnostics resp)"
  shows "(\<not> (IsNull (fg_Id plan) \<or> ValueString (fg_Id plan) = '''')
          \<and> validate (map ValueString (Elements (fg_LabelMatchers plan))) = Inr toks
          \<and> UpdateFederatedGraph c (admissionWebhookSecret plan) (apiGraph plan toks) (remote w)
              = ((ro, Some e), r')
          \<and> \<not> IsSubgraphCompositionFailedError e \<longrightarrow>
          (\<exists>resp' d. fst (Update c \<lparr>update_Plan = plan, update_State = st\<rparr> resp w) = Return resp'
             \<and> State resp' = State resp
             \<and> Diagnostics resp' = Diagnostics resp @
                  [\<lparr>Severity = SeverityError, Summary = ErrUpdatingGraph, Detail = d\<rparr>]))
       \<and> (\<not> (IsNull (fg_Id st) \<or> ValueString (fg_Id st) = '''')
          \<and> DeleteFederatedGraph c (ValueString (fg_Name st)) (ValueString (fg_Namespace st))
                (remote w) = (Some e', r'') \<longrightarrow>
          (\<exists>resp' d. fst (Delete c \<lparr>delete_State = st\<rparr> resp w) = Return resp'
             \<and> State resp' = State resp
             \<and> Diagnostics resp' = Diagnostics resp @
                  [\<lparr>Severity = SeverityError, Summary = ErrDeletingGraph, Detail = d\<rparr>]))"
proof (intro conjI impI)
  assume h: "\<not> (IsNull (fg_Id plan) \<or> ValueString (fg_Id plan) = '''')
          \<and> validate (map ValueString (Elements (fg_LabelMatchers plan))) = Inr toks
          \<and> UpdateFederatedGraph c (admissionWebhookSecret plan) (apiGraph plan toks) (remote w)
              = ((ro, Some e), r')
          \<and> \<not> IsSubgraphCompositionFailedError e"
  then have h1: "\<not> (IsNull (fg_Id plan) \<or> ValueString (fg_Id plan) = '''')"
    and h2: "validate (map ValueString (Elements (fg_LabelMatchers plan))) = Inr toks"
    and h3: "UpdateFederatedGraph c (admissionWebhookSecret plan) (apiGraph plan toks) (remote w)
              = ((ro, Some e), r')"
    and h4: "\<not> IsSubgraphCompositionFailedError e"
    by simp_all
  have "fst (Update c \<lparr>update_Plan = plan, update_State = st\<rparr> resp w) =
          Return (AddDiagnosticError resp ErrUpdatingGraph (ApiError_Error e))"
    using h4 by (simp add: Update_after_call [OF assms h1 h2 h3])
  then show "\<exists>resp' d. fst (Update c \<lparr>update_Plan = plan, update_State = st\<rparr> resp w) = Return resp'
             \<and> State resp' = State resp
             \<and> Diagnostics resp' = Diagnostics resp @
                  [\<lparr>Severity = SeverityError, Summary = ErrUpdatingGraph, Detail = d\<rparr>]"
    by (simp add: AddDiagnosticError_fields)
next
  assume h: "\<not> (IsNull (fg_Id st) \<or> ValueString (fg_Id st) = '''')
          \<and> DeleteFederatedGraph c (ValueString (fg_Name st)) (ValueString (fg_Namespace st))
                (remote w) = (Some e', r'')"
  then have h1: "\<not> (IsNull (fg_Id st) \<or> ValueString (fg_Id st) = '''')"
    and h2: "DeleteFederatedGraph c (ValueString (fg_Name st)) (ValueString (fg_Namespace st))
                (remote w) = (Some e', r'')"
    by simp_all
  have "fst (Delete c \<lparr>delete_State = st\<rparr> resp w) =
          Return (AddDiagnosticError resp ErrDeletingGraph
            (Sprintf ''Could not delete federated graph: %s, graph name: %s, graph namespace: %s''
               [FApiError e', FString (ValueString (fg_Name st)),
                FString (ValueString (fg_Namespace st))]))"
    by (simp add: Delete_after_call [OF assms h1 h2])
  then show "\<exists>resp' d. fst (Delete c \<lparr>delete_State = st\<rparr> resp w) = Return resp'
             \<and> State resp' = State resp
             \<and> Diagnostics resp' = Diagnostics resp @
                  [\<lparr>Severity = SeverityError, Summary = ErrDeletingGraph, Detail = d\<rparr>]"
    by (simp add: AddDiagnosticError_fields)
qed

theorem hard_failure_keeps_state_witness:
  "(\<exists>resp' d. fst (Update (stub_client None (None, None) (None, Some (api_error ERR)) None (None, None))
                    \<lparr>update_Plan = orders_model, update_State = orders_model\<rparr>
                    (tracked orders_model) start) = Return resp'
       \<and> State resp' = Some orders_model
       \<and> Diagnostics resp' =
            [\<lparr>Severity = SeverityError, Summary = ErrUpdatingGraph, Detail = d\<rparr>])
   \<and> (\<exists>resp' d. fst (Delete (stub_client None (None, None) (None, None)
                             (Some (api_error ERR_SUBGRAPH_COMPOSITION_FAILED)) (None, None))
                    \<lparr>delete_State = orders_model\<rparr> (tracked orders_model) start) = Return resp'
       \<and> State resp' = Some orders_model
       \<and> Diagnostics resp' =
            [\<lparr>Severity = SeverityError, Summary = ErrDeletingGraph, Detail = d\<rparr>])"
proof -
  have t: "\<not> HasError (Diagnostics (tracked orders_model))"
    by (simp add: tracked_def HasError_def)
  have u: "\<not> (IsNull (fg_Id orders_model) \<or> ValueString (fg_Id orders_model) = '''')
      \<and> validate (map ValueString (Elements (fg_LabelMatchers orders_model))) =
          Inr [''team=payments'', ''env=prod'']
      \<and> UpdateFederatedGraph
          (stub_client None (None, None) (None, Some (api_error ERR)) None (None, None))
          (admissionWebhookSecret orders_model)
          (apiGraph orders_model [''team=payments'', ''env=prod'']) (remote start)
          = ((None, Some (api_error ERR)), ())
      \<and> \<not> IsSubgraphCompositionFailedError (api_error ERR)"
    by (simp add: validate_orders_model)
      (simp add: orders_model_def stub_client_def api_error_def
        IsSubgraphCompositionFailedError_def)
  have d: "\<not> (IsNull (fg_Id orders_model) \<or> ValueString (fg_Id orders_model) = '''')
      \<and> DeleteFederatedGraph
          (stub_client None (None, None) (None, None)
             (Some (api_error ERR_SUBGRAPH_COMPOSITION_FAILED)) (None, None))
          (ValueString (fg_Name orders_model)) (ValueString (fg_Namespace orders_model))
          (remote start) = (Some (api_error ERR_SUBGRAPH_COMPOSITION_FAILED), ())"
    by (simp add: orders_model_def stub_client_def)
  have s: "State (tracked orders_model) = Some orders_model"
    "Diagnostics (tracked orders_model) = []"
    by (simp_all add: tracked_def)
  from hard_failure_keeps_state [OF t, THEN conjunct1, rule_format, OF u]
    hard_failure_keeps_state [OF t, THEN conjunct2, rule_format, OF d]
  show ?thesis
    unfolding s by simp
qed





text \<open>
  \<open>Create\<close> once validation has passed and both remote calls are known. An error that
  \<open>createFederatedGraph\<close> returns comes with a nil response; when \<open>Create\<close> classifies
  it as a composition failure it adds two warnings and goes on to \<open>response.Graph\<close>.
\<close>

lemma Create_after_calls:
  assumes "\<not> HasError (Diagnostics resp)"
    and "validate (map ValueString (Elements (fg_LabelMatchers plan))) = Inr toks"
    and "CreateFederatedGraph c (admissionWebhookSecret plan) (apiGraph plan toks) (remote w)
           = (co, r1)"
    and "GetFederatedGraph c (ValueString (fg_Name plan)) (ValueString (fg_Namespace plan)) r1
           = ((ro, eo), r2)"
  shows "Create c \<lparr>create_Plan = plan\<rparr> resp w =
     (let w1 = \<lparr>remote = r1, calls = calls w @
                  [Call_CreateFederatedGraph (admissionWebhookSecret plan) (apiGraph plan toks)]\<rparr>;
          w2 = \<lparr>remote = r2, calls = calls w @
                  [Call_CreateFederatedGraph (admissionWebhookSecret plan) (apiGraph plan toks),
                   Call_GetFederatedGraph (ValueString (fg_Name plan))
                     (ValueString (fg_Namespace plan))]\<rparr>
      in case co of
           Some e \<Rightarrow>
             if IsSubgraphCompositionFailedError e
             then (let resp1 = AddDiagnosticWarning resp ErrCompositionError (ApiError_Error e)
                   in case eo of
                        Some e2 \<Rightarrow>
                          if IsSubgraphCompositionFailedError e2
                          then (Panic, w2)
                          else (Return (AddDiagnosticError resp1 ErrCreatingGraph
                                          (ApiError_Error e2)), w2)
                      | None \<Rightarrow>
                          (case ro of
                             None \<Rightarrow> (Panic, w2)
                           | Some gr \<Rightarrow>
                               (Return (resp1\<lparr>State := Some (plan
                                  \<lparr>fg_Id := StringValue (GetId (Graph gr)),
                                   fg_Name := StringValue (GetName (Graph gr)),
                                   fg_Namespace := StringValue (GetNamespace (Graph gr)),
                                   fg_RoutingURL := StringValue (GetRoutingURL (Graph gr))\<rparr>)\<rparr>),
                                w2)))
             else (Return (AddDiagnosticError resp ErrCreatingGraph (ApiError_Error e)), w1)
         | None \<Rightarrow>
             (case eo of
                Some e2 \<Rightarrow>
                  if IsSubgraphCompositionFailedError e2
                  then (Panic, w2)
                  else (Return (AddDiagnosticError resp ErrCreatingGraph (ApiError_Error e2)), w2)
              | None \<Rightarrow>
                  (case ro of
                     None \<Rightarrow> (Panic, w2)
                   | Some gr \<Rightarrow>
                       (Return (resp\<lparr>State := Some (plan
                          \<lparr>fg_Id := StringValue (GetId (Graph gr)),
                           fg_Name := StringValue (GetName (Graph gr)),
                           fg_Namespace := StringValue (GetNamespace (Graph gr)),
                           fg_RoutingURL := StringValue (GetRoutingURL (Graph gr))\<rparr>)\<rparr>),
                        w2))))"
  using assms(1)
  by (simp add: Create_def createFederatedGraph_after_calls [OF assms(2-4)] Let_def
      split: option.splits)

text \<open>
  Every error \<open>createFederatedGraph\<close> returns comes with a nil response, and one that is
  classified as a composition failure is the error of the read (the validation error has
  status \<open>ERR\<close>, and a composition failure of the create call is not returned). \<open>Create\<close>
  panics on every such error.
\<close>

lemma createFederatedGraph_error_nil_response:
  assumes "createFederatedGraph c data resp w = (Return (ro, Some e), resp', w')"
  shows "ro = None"
  using assms
  by (auto simp add: createFederatedGraph_def ConvertAndValidateLabelMatchers_def
      client_CreateFederatedGraph_def client_GetFederatedGraph_def Let_def
      split: sum.splits option.splits prod.splits if_splits)

lemma composition_failed_error_is_from_read:
  assumes "createFederatedGraph c data resp w = (Return (ro, Some e), resp', w')"
    and "IsSubgraphCompositionFailedError e"
  shows "\<exists>r ro' r'. GetFederatedGraph c (ValueString (fg_Name data))
           (ValueString (fg_Namespace data)) r = ((ro', Some e), r')"
  using assms
  by (auto simp add: createFederatedGraph_def ConvertAndValidateLabelMatchers_def
      client_CreateFederatedGraph_def client_GetFederatedGraph_def Let_def apiGraph_def
      IsSubgraphCompositionFailedError_def
      split: sum.splits option.splits prod.splits if_splits)

lemma Create_panics_on_composition_failed_error:
  assumes "\<not> HasError (Diagnostics resp)"
    and "createFederatedGraph c (create_Plan req) resp w = (Return (ro, Some e), resp', w')"
    and "IsSubgraphCompositionFailedError e"
  shows "Create c req resp w = (Panic, w')"
  using assms createFederatedGraph_error_nil_response [OF assms(2)]
  by (simp add: Create_def Let_def)

lemma fixture_facts:
  "\<not> HasError (Diagnostics (empty_response :: FederatedGraphResourceModel Response))"
  "IsSubgraphCompositionFailedError composition_failed"
  "\<not> IsSubgraphCompositionFailedError (api_error ERR)"
  "validate (map ValueString (Elements (fg_LabelMatchers new_orders_model))) =
     Inr [''team=payments'', ''env=prod'']"
  using validate_orders_model
  by (simp_all add: empty_response_def HasError_def composition_failed_def api_error_def
      IsSubgraphCompositionFailedError_def new_orders_model_def)




text \<open>
  C9. The claim is that no error returned by \<open>createFederatedGraph\<close> is classified as a
  composition failure, so that \<open>Create\<close> never reads a nil response. The error of the
  read inside \<open>createFederatedGraph\<close> is returned as it is, with a nil response; when
  it carries the composition-failed status, \<open>Create\<close> adds its warnings and panics
  on \<open>response.Graph\<close> (in general: \<open>Create_panics_on_composition_failed_error\<close>).
\<close>

theorem Create_nil_response_panic:
  "fst (createFederatedGraph read_composition_failed_client new_orders_model
          empty_response start)
     = Return (None, Some composition_failed)
   \<and> IsSubgraphCompositionFailedError composition_failed
   \<and> fst (Create read_composition_failed_client \<lparr>create_Plan = new_orders_model\<rparr>
            empty_response start)
     = Panic"
proof -
  have cr: "CreateFederatedGraph read_composition_failed_client
      (admissionWebhookSecret new_orders_model)
      (apiGraph new_orders_model [''team=payments'', ''env=prod'']) (remote start) = (None, ())"
    by (simp add: read_composition_failed_client_def stub_client_def)
  have gt: "GetFederatedGraph read_composition_failed_client
      (ValueString (fg_Name new_orders_model)) (ValueString (fg_Namespace new_orders_model)) ()
     = ((None, Some composition_failed), ())"
    by (simp add: read_composition_failed_client_def stub_client_def)
  have "fst (createFederatedGraph read_composition_failed_client new_orders_model
          empty_response start) = Return (None, Some composition_failed)"
    unfolding createFederatedGraph_after_calls [OF fixture_facts(4) cr gt]
    by (simp add: Let_def)
  moreover have "fst (Create read_composition_failed_client \<lparr>create_Plan = new_orders_model\<rparr>
            empty_response start) = Panic"
    unfolding Create_after_calls [OF fixture_facts(1) fixture_facts(4) cr gt]
    using fixture_facts(2) by (simp add: Let_def)
  ultimately show ?thesis
    using fixture_facts(2) by simp
qed



end
